theory Spec2Isabelle
  imports Main
begin

section \<open>Data model\<close>

text \<open>
  The two request dispatchers of the extension, \<open>DiagnosticUpdater\<close> and
  \<open>CodeActionEditResolver\<close>, are embedded here. Both are promise chains over
  collaborators whose code lives in other modules (the cancellation registry of
  \<open>WorkerService\<close>, \<open>Configuration\<close>, \<open>WorkerPool\<close>, \<open>Worker\<close>,
  \<open>WorkspaceLocator\<close>, \<open>Logger\<close>, \<open>LinterStatus\<close>). A rejected promise is the
  left injection of a sum, a fulfilled one the right injection; every call made on a
  collaborator is appended to a list of events, in program order.
\<close>

datatype uri = Uri (fsPath: string)

record text_document =
  uri :: uri
  fileName :: string
  getText :: string

record position =
  line :: nat
  character :: nat

text \<open>\<open>diagnostic.code\<close> is read through the assertion \<open>as string\<close> in the source.\<close>

record diagnostic =
  code :: string
  range_start :: position
  range_end :: position
  message :: string

datatype code_action_kind = QuickFix | OtherKind string

text \<open>The value of \<open>IgnoreLineCommand.COMMAND\<close> is declared in another module.\<close>

datatype command_id = IgnoreLineCommand_COMMAND | OtherCommand string

datatype command_argument =
    ArgDocument text_document
  | ArgString string
  | ArgNumber nat

record command =
  command_title :: string
  command_name :: command_id
  arguments :: "command_argument list"

datatype text_edit = TextEdit position position string

text \<open>A workspace edit: the text edits held for each resource.\<close>

type_synonym workspace_edit = "(uri \<times> text_edit list) list"

text \<open>
  The extension's \<open>CodeAction\<close>: the editor's code action with an optional document.
  An optional property that is unset is \<open>None\<close>.
\<close>

record code_action =
  title :: string
  kind :: code_action_kind
  action_diagnostics :: "diagnostic list option"
  action_command :: "command option"
  edit :: "workspace_edit option"
  document :: "text_document option"

text \<open>
  \<open>LintAction\<close>: the dispatcher names \<open>Change\<close> and \<open>Save\<close>; any further member of
  the enumeration takes neither branch of the switch.
\<close>

datatype lint_action = Change | Save | OtherLintAction

text \<open>An exclude pattern is used through \<open>pattern.test(path)\<close> only.\<close>

type_synonym pattern = "string \<Rightarrow> bool"

record configuration =
  exclude :: "pattern list"
  lintAction :: lint_action
  executable :: string
  standard :: string

datatype report_type = Diagnostic | CodeAction

record request_options =
  options_executable :: string
  options_standard :: string

record request_data =
  data_code :: string
  data_line :: nat
  data_character :: nat

record request =
  type :: report_type
  workingDirectory :: string
  documentPath :: string
  documentContent :: string
  options :: request_options
  data :: "request_data option"

record diagnostic_report =
  diagnostics :: "diagnostic list"
  codeActions :: "code_action list"

record code_action_report =
  edits :: "text_edit list"

text \<open>A response carries an optional report: \<open>None\<close> is the falsy \<open>response.report\<close>.\<close>

record 'r response =
  report :: "'r option"

text \<open>
  The errors the catch handlers tell apart with \<open>instanceof\<close>, and everything else.
\<close>

datatype error =
    CancellationError
  | ConfigurationError string
  | PHPCSError string
  | UpdatePreventedError
  | OtherError string

fun instanceof_CancellationError :: "error \<Rightarrow> bool" where
  "instanceof_CancellationError CancellationError = True"
| "instanceof_CancellationError _ = False"

fun instanceof_ConfigurationError :: "error \<Rightarrow> bool" where
  "instanceof_ConfigurationError (ConfigurationError _) = True"
| "instanceof_ConfigurationError _ = False"

fun instanceof_PHPCSError :: "error \<Rightarrow> bool" where
  "instanceof_PHPCSError (PHPCSError _) = True"
| "instanceof_PHPCSError _ = False"

fun instanceof_UpdatePreventedError :: "error \<Rightarrow> bool" where
  "instanceof_UpdatePreventedError UpdatePreventedError = True"
| "instanceof_UpdatePreventedError _ = False"

datatype cancellation_token = CancellationToken nat

datatype worker = Worker nat

section \<open>Collaborators\<close>

text \<open>
  What the collaborators answer during one dispatcher call. Their code is outside the
  dispatchers, so each is a parameter: \<open>createCancellationToken\<close> may return no token,
  and each asynchronous call either fulfils with a value or rejects with an error.
\<close>

record 'r collaborators =
  createCancellationToken ::
    "text_document \<Rightarrow> cancellation_token option \<Rightarrow> cancellation_token option"
  configuration_get ::
    "text_document \<Rightarrow> cancellation_token option \<Rightarrow> error + configuration"
  waitForAvailable :: "string \<Rightarrow> cancellation_token \<Rightarrow> error + worker"
  execute :: "worker \<Rightarrow> request \<Rightarrow> cancellation_token \<Rightarrow> error + 'r response"
  getWorkspaceFolderOrDefault :: "uri \<Rightarrow> uri"

text \<open>The calls a dispatcher makes on its collaborators.\<close>

datatype event =
    CreateCancellationToken uri "cancellation_token option"
  | DeleteCancellationToken uri
  | LinterStatusStart uri
  | LinterStatusStop uri
  | OnCancellationRequested cancellation_token uri
  | ConfigurationGet uri "cancellation_token option"
  | WaitForAvailable string cancellation_token
  | WorkerExecute worker request cancellation_token
  | LoggerError error

section \<open>Strings\<close>

text \<open>\<open>String(n)\<close> for a non-negative integer: its decimal digits.\<close>

definition digit :: "nat \<Rightarrow> char" where
  "digit d = ''0123456789'' ! d"

fun number_toString :: "nat \<Rightarrow> string" where
  "number_toString n =
     (if n < 10 then [digit n] else number_toString (n div 10) @ [digit (n mod 10)])"

declare number_toString.simps [simp del]

text \<open>\<open>Array.prototype.join\<close> on elements already converted to strings.\<close>

fun array_join :: "string \<Rightarrow> string list \<Rightarrow> string" where
  "array_join sep [] = []"
| "array_join sep [x] = x"
| "array_join sep (x # y # ys) = x @ sep @ array_join sep (y # ys)"

section \<open>CodeActionEditResolver\<close>

text \<open>The key built in the first continuation of \<open>resolve\<close>.\<close>

definition workerKey :: "text_document \<Rightarrow> diagnostic \<Rightarrow> string" where
  "workerKey doc diag =
     array_join '':''
       [''resolve'',
        fileName doc,
        code diag,
        number_toString (line (range_start diag)),
        number_toString (character (range_start diag))]"

definition code_action_request ::
  "code_action_report collaborators \<Rightarrow> text_document \<Rightarrow> diagnostic \<Rightarrow> configuration
     \<Rightarrow> request" where
  "code_action_request env doc diag config =
     \<lparr> type = CodeAction,
       workingDirectory = fsPath (getWorkspaceFolderOrDefault env (uri doc)),
       documentPath = fsPath (uri doc),
       documentContent = getText doc,
       options = \<lparr> options_executable = executable config,
                   options_standard = standard config \<rparr>,
       data = Some \<lparr> data_code = code diag,
                     data_line = line (range_start diag),
                     data_character = character (range_start diag) \<rparr> \<rparr>"

text \<open>
  The chain of \<open>resolve\<close> up to \<open>worker.execute\<close>: the configuration is fetched with
  the token, a worker is awaited under the key, the configuration is fetched again
  (without a token) and the request is executed. The first rejection ends the chain.
\<close>

definition resolve_request ::
  "code_action_report collaborators \<Rightarrow> text_document \<Rightarrow> diagnostic \<Rightarrow> cancellation_token
     \<Rightarrow> event list \<Rightarrow> (error + code_action_report response) \<times> event list" where
  "resolve_request env doc diag tok tr =
     (let tr1 = tr @ [ConfigurationGet (uri doc) (Some tok)] in
      case configuration_get env doc (Some tok) of
        Inl e \<Rightarrow> (Inl e, tr1)
      | Inr _ \<Rightarrow>
          (let key = workerKey doc diag;
               tr2 = tr1 @ [WaitForAvailable key tok] in
           case waitForAvailable env key tok of
             Inl e \<Rightarrow> (Inl e, tr2)
           | Inr w \<Rightarrow>
               (let tr3 = tr2 @ [ConfigurationGet (uri doc) None] in
                case configuration_get env doc None of
                  Inl e \<Rightarrow> (Inl e, tr3)
                | Inr config \<Rightarrow>
                    (let req = code_action_request env doc diag config
                     in (execute env w req tok, tr3 @ [WorkerExecute w req tok])))))"

text \<open>The continuation that receives the response.\<close>

definition resolve_response ::
  "code_action \<Rightarrow> text_document \<Rightarrow> code_action_report response \<Rightarrow> event list
     \<Rightarrow> (error + code_action) \<times> event list" where
  "resolve_response codeAction doc resp tr =
     (let tr1 = tr @ [DeleteCancellationToken (uri doc)] in
      case report resp of
        Some r \<Rightarrow> (Inr (codeAction\<lparr> edit := Some [(uri doc, edits r)] \<rparr>), tr1)
      | None \<Rightarrow> (Inr codeAction, tr1))"

text \<open>The catch handler of \<open>resolve\<close>, in the order of its tests.\<close>

definition resolve_catch ::
  "code_action \<Rightarrow> error \<Rightarrow> event list \<Rightarrow> (error + code_action) \<times> event list" where
  "resolve_catch codeAction e tr =
     (if instanceof_CancellationError e then (Inr codeAction, tr)
      else if instanceof_ConfigurationError e then (Inr codeAction, tr @ [LoggerError e])
      else if instanceof_PHPCSError e then (Inr codeAction, tr @ [LoggerError e])
      else (Inl e, tr))"

text \<open>
  \<open>resolve\<close>: the promise it returns is fulfilled with a code action (\<open>Inr\<close>) or
  rejected (\<open>Inl\<close>); the second component is the list of calls made so far.
\<close>

definition resolve ::
  "code_action_report collaborators \<Rightarrow> code_action \<Rightarrow> cancellation_token option
     \<Rightarrow> event list \<Rightarrow> (error + code_action) \<times> event list" where
  "resolve env codeAction parentCancellationToken tr =
     (case document codeAction of
        None \<Rightarrow> (Inr codeAction, tr)
      | Some doc \<Rightarrow>
          (case action_diagnostics codeAction of
             None \<Rightarrow> (Inr codeAction, tr)
           | Some ds \<Rightarrow>
               if length ds \<noteq> 1 then (Inr codeAction, tr)
               else
                 (let tr0 = tr @ [CreateCancellationToken (uri doc) parentCancellationToken] in
                  case createCancellationToken env doc parentCancellationToken of
                    None \<Rightarrow> (Inr codeAction, tr0)
                  | Some tok \<Rightarrow>
                      (case resolve_request env doc (ds ! 0) tok tr0 of
                         (Inr resp, tr1) \<Rightarrow> resolve_response codeAction doc resp tr1
                       | (Inl e, tr1) \<Rightarrow> resolve_catch codeAction e tr1))))"

section \<open>DiagnosticUpdater\<close>

text \<open>
  The updater's own state: the diagnostic collection and the code action collection,
  both keyed by the document's resource, and the calls made on the collaborators.
\<close>

record diagnostic_updater =
  diagnosticCollection :: "uri \<rightharpoonup> diagnostic list"
  codeActionCollection :: "uri \<rightharpoonup> code_action list"
  calls :: "event list"

definition emit :: "event \<Rightarrow> diagnostic_updater \<Rightarrow> diagnostic_updater" where
  "emit ev s = s\<lparr> calls := calls s @ [ev] \<rparr>"

definition clearDocument :: "text_document \<Rightarrow> diagnostic_updater \<Rightarrow> diagnostic_updater" where
  "clearDocument doc s =
     s\<lparr> diagnosticCollection := (diagnosticCollection s)(uri doc := None),
        codeActionCollection := (codeActionCollection s)(uri doc := None) \<rparr>"

text \<open>The ignore action that \<open>buildDiagnosticCodeActions\<close> creates for one diagnostic.\<close>

definition ignore_action :: "text_document \<Rightarrow> diagnostic \<Rightarrow> code_action" where
  "ignore_action doc d =
     \<lparr> title = ''Ignore '' @ code d @ '' for this line'',
       kind = QuickFix,
       action_diagnostics = Some [d],
       action_command =
         Some \<lparr> command_title = ''Ignore Laravel PHP_CodeSniffer'',
                command_name = IgnoreLineCommand_COMMAND,
                arguments = [ArgDocument doc, ArgString (code d),
                             ArgNumber (line (range_start d))] \<rparr>,
       edit = None,
       document = None \<rparr>"

text \<open>The loop of \<open>buildDiagnosticCodeActions\<close>, pushing onto \<open>codeActions\<close>.\<close>

fun buildDiagnosticCodeActions_loop ::
  "text_document \<Rightarrow> diagnostic list \<Rightarrow> code_action list \<Rightarrow> code_action list" where
  "buildDiagnosticCodeActions_loop doc [] acts = acts"
| "buildDiagnosticCodeActions_loop doc (d # ds) acts =
     buildDiagnosticCodeActions_loop doc ds (acts @ [ignore_action doc d])"

definition buildDiagnosticCodeActions ::
  "text_document \<Rightarrow> diagnostic list \<Rightarrow> code_action list" where
  "buildDiagnosticCodeActions doc ds = buildDiagnosticCodeActions_loop doc ds []"

text \<open>
  The loop over \<open>configuration.exclude\<close>: true when some pattern tests positive on the
  path, which is where the source clears the document and throws.
\<close>

fun excluded :: "pattern list \<Rightarrow> string \<Rightarrow> bool" where
  "excluded [] path = False"
| "excluded (p # ps) path = (if p path then True else excluded ps path)"

text \<open>The switch on the triggering action: true where the source throws.\<close>

definition prevented :: "lint_action \<Rightarrow> configuration \<Rightarrow> bool" where
  "prevented la config =
     (case la of
        Change \<Rightarrow> lintAction config = Save
      | Save \<Rightarrow> lintAction config = Change
      | OtherLintAction \<Rightarrow> False)"

definition diagnostic_request ::
  "diagnostic_report collaborators \<Rightarrow> text_document \<Rightarrow> configuration \<Rightarrow> request" where
  "diagnostic_request env doc config =
     \<lparr> type = Diagnostic,
       workingDirectory = fsPath (getWorkspaceFolderOrDefault env (uri doc)),
       documentPath = fsPath (uri doc),
       documentContent = getText doc,
       options = \<lparr> options_executable = executable config,
                   options_standard = standard config \<rparr>,
       data = None \<rparr>"

text \<open>
  The first continuation of \<open>update\<close>, which receives the configuration: the exclusion
  loop, the switch, the wait for a worker and the request.
\<close>

definition update_request ::
  "diagnostic_report collaborators \<Rightarrow> text_document \<Rightarrow> lint_action \<Rightarrow> cancellation_token
     \<Rightarrow> configuration \<Rightarrow> diagnostic_updater
     \<Rightarrow> (error + diagnostic_report response) \<times> diagnostic_updater" where
  "update_request env doc la tok config s =
     (if excluded (exclude config) (fsPath (uri doc))
      then (Inl UpdatePreventedError, clearDocument doc s)
      else if prevented la config then (Inl UpdatePreventedError, s)
      else
        (let key = ''diagnostic:'' @ fileName doc;
             s1 = emit (WaitForAvailable key tok) s in
         case waitForAvailable env key tok of
           Inl e \<Rightarrow> (Inl e, s1)
         | Inr w \<Rightarrow>
             (let req = diagnostic_request env doc config
              in (execute env w req tok, emit (WorkerExecute w req tok) s1))))"

text \<open>The continuation that receives the response.\<close>

definition update_response ::
  "text_document \<Rightarrow> diagnostic_report response \<Rightarrow> diagnostic_updater \<Rightarrow> diagnostic_updater"
  where
  "update_response doc resp s =
     (let s1 = emit (DeleteCancellationToken (uri doc)) s;
          s2 = emit (LinterStatusStop (uri doc)) s1 in
      case report resp of
        None \<Rightarrow> clearDocument doc s2
      | Some r \<Rightarrow>
          (let s3 = s2\<lparr> diagnosticCollection :=
                          (diagnosticCollection s2)(uri doc \<mapsto> diagnostics r) \<rparr>;
               acts = codeActions r @ buildDiagnosticCodeActions doc (diagnostics r)
           in s3\<lparr> codeActionCollection := (codeActionCollection s3)(uri doc \<mapsto> acts) \<rparr>))"

text \<open>
  The catch handler of \<open>update\<close>, in the order of its tests. \<open>Inr ()\<close> is the handler
  returning, \<open>Inl e\<close> is \<open>throw e\<close>.
\<close>

definition update_catch ::
  "text_document \<Rightarrow> error \<Rightarrow> diagnostic_updater \<Rightarrow> (error + unit) \<times> diagnostic_updater" where
  "update_catch doc e s =
     (if instanceof_CancellationError e then (Inr (), s)
      else
        (let s1 = emit (LinterStatusStop (uri doc)) s in
         if instanceof_ConfigurationError e then (Inr (), emit (LoggerError e) s1)
         else if instanceof_UpdatePreventedError e then (Inr (), s1)
         else if instanceof_PHPCSError e then (Inr (), emit (LoggerError e) s1)
         else (Inl e, s1)))"

text \<open>
  The promise chain of \<open>update\<close> up to the response: the configuration is fetched
  with the token and handed to the first continuation.

  \<open>update\<close> returns nothing; the first component is how its promise chain settles:
  \<open>Inr ()\<close> when it is fulfilled, \<open>Inl e\<close> when the catch handler throws \<open>e\<close> again.
  The listener registered on the token stops the linter status when the registry
  cancels the token; its registration is one of the recorded calls.
\<close>

definition update_chain ::
  "diagnostic_report collaborators \<Rightarrow> text_document \<Rightarrow> lint_action \<Rightarrow> cancellation_token
     \<Rightarrow> diagnostic_updater \<Rightarrow> (error + diagnostic_report response) \<times> diagnostic_updater"
  where
  "update_chain env doc la tok s =
     (let s1 = emit (ConfigurationGet (uri doc) (Some tok)) s in
      case configuration_get env doc (Some tok) of
        Inl e \<Rightarrow> (Inl e, s1)
      | Inr config \<Rightarrow> update_request env doc la tok config s1)"

definition update ::
  "diagnostic_report collaborators \<Rightarrow> text_document \<Rightarrow> lint_action \<Rightarrow> diagnostic_updater
     \<Rightarrow> (error + unit) \<times> diagnostic_updater" where
  "update env doc la s =
     (let s0 = emit (CreateCancellationToken (uri doc) None) s in
      case createCancellationToken env doc None of
        None \<Rightarrow> (Inr (), s0)
      | Some tok \<Rightarrow>
          (let s1 = emit (LinterStatusStart (uri doc)) s0;
               s2 = emit (OnCancellationRequested tok (uri doc)) s1 in
           case update_chain env doc la tok s2 of
             (Inr resp, s3) \<Rightarrow> (Inr (), update_response doc resp s3)
           | (Inl e, s3) \<Rightarrow> update_catch doc e s3))"

section \<open>Example inputs\<close>

definition doc0 :: text_document where
  "doc0 = \<lparr> uri = Uri ''/w/a.php'', fileName = ''/w/a.php'', getText = ''<?php'' \<rparr>"

definition diag0 :: diagnostic where
  "diag0 = \<lparr> code = ''Generic.Files.LineLength'',
             range_start = \<lparr> line = 12, character = 4 \<rparr>,
             range_end = \<lparr> line = 12, character = 9 \<rparr>,
             message = ''Line too long'' \<rparr>"

definition config0 :: configuration where
  "config0 = \<lparr> exclude = [\<lambda>p. p = ''/w/vendor/b.php'', \<lambda>p. p = ''/w/c.php''],
               lintAction = Change, executable = ''phpcs'', standard = ''PSR12'' \<rparr>"

text \<open>Collaborators that answer the same thing whatever they are asked.\<close>

definition constant_collaborators ::
  "cancellation_token option \<Rightarrow> error + configuration \<Rightarrow> error + worker
     \<Rightarrow> error + 'r response \<Rightarrow> 'r collaborators" where
  "constant_collaborators tok config w resp =
     \<lparr> createCancellationToken = (\<lambda>_ _. tok),
       configuration_get = (\<lambda>_ _. config),
       waitForAvailable = (\<lambda>_ _. w),
       execute = (\<lambda>_ _ _. resp),
       getWorkspaceFolderOrDefault = (\<lambda>_. Uri ''/w'') \<rparr>"

definition action0 :: code_action where
  "action0 = \<lparr> title = ''Fix'', kind = QuickFix, action_diagnostics = Some [diag0],
               action_command = None, edit = None, document = Some doc0 \<rparr>"

definition updater0 :: diagnostic_updater where
  "updater0 = \<lparr> diagnosticCollection = [Uri ''/w/a.php'' \<mapsto> [diag0]],
                codeActionCollection = [Uri ''/w/a.php'' \<mapsto> [action0]],
                calls = [] \<rparr>"

definition env_update0 :: "diagnostic_report collaborators" where
  "env_update0 =
     constant_collaborators (Some (CancellationToken 1)) (Inr config0) (Inr (Worker 0))
       (Inr \<lparr> report = Some \<lparr> diagnostics = [diag0], codeActions = [action0] \<rparr> \<rparr>)"

definition env_resolve0 :: "code_action_report collaborators" where
  "env_resolve0 =
     constant_collaborators (Some (CancellationToken 2)) (Inr config0) (Inr (Worker 0))
       (Inr \<lparr> report = Some \<lparr> edits = [TextEdit \<lparr> line = 12, character = 4 \<rparr>
                                                  \<lparr> line = 12, character = 9 \<rparr> ''x''] \<rparr> \<rparr>)"

definition env_update_fails0 :: "diagnostic_report collaborators" where
  "env_update_fails0 =
     constant_collaborators (Some (CancellationToken 1)) (Inr config0) (Inr (Worker 0))
       (Inl (PHPCSError ''phpcs: fatal error''))"

definition env_update_cancelled0 :: "diagnostic_report collaborators" where
  "env_update_cancelled0 =
     constant_collaborators (Some (CancellationToken 1)) (Inr config0) (Inl CancellationError)
       (Inr \<lparr> report = None \<rparr>)"

definition env_resolve_fails0 :: "code_action_report collaborators" where
  "env_resolve_fails0 =
     constant_collaborators (Some (CancellationToken 2))
       (Inl (ConfigurationError ''no executable'')) (Inr (Worker 0)) (Inr \<lparr> report = None \<rparr>)"

definition env_update_unknown0 :: "diagnostic_report collaborators" where
  "env_update_unknown0 =
     constant_collaborators (Some (CancellationToken 1)) (Inr config0) (Inr (Worker 0))
       (Inl (OtherError ''TypeError''))"

definition env_resolve_unknown0 :: "code_action_report collaborators" where
  "env_resolve_unknown0 =
     constant_collaborators (Some (CancellationToken 2)) (Inr config0)
       (Inl (OtherError ''TypeError'')) (Inr \<lparr> report = None \<rparr>)"

definition config_excluding0 :: configuration where
  "config_excluding0 = config0\<lparr> exclude := [\<lambda>p. p = ''/w/vendor/b.php'', \<lambda>p. p = ''/w/a.php''] \<rparr>"

definition env_update_excluding0 :: "diagnostic_report collaborators" where
  "env_update_excluding0 =
     constant_collaborators (Some (CancellationToken 1)) (Inr config_excluding0)
       (Inr (Worker 0))
       (Inr \<lparr> report = Some \<lparr> diagnostics = [diag0], codeActions = [action0] \<rparr> \<rparr>)"

definition env_update_on_save0 :: "diagnostic_report collaborators" where
  "env_update_on_save0 =
     constant_collaborators (Some (CancellationToken 1)) (Inr (config0\<lparr> lintAction := Save \<rparr>))
       (Inr (Worker 0))
       (Inr \<lparr> report = Some \<lparr> diagnostics = [diag0], codeActions = [action0] \<rparr> \<rparr>)"

section \<open>Observing the recorded calls\<close>

text \<open>The errors passed to \<open>logger.error\<close>, in order.\<close>

fun logged :: "event list \<Rightarrow> error list" where
  "logged [] = []"
| "logged (LoggerError e # evs) = e # logged evs"
| "logged (_ # evs) = logged evs"

text \<open>The keys passed to \<open>waitForAvailable\<close>, in order.\<close>

fun waitForAvailable_keys :: "event list \<Rightarrow> string list" where
  "waitForAvailable_keys [] = []"
| "waitForAvailable_keys (WaitForAvailable key _ # evs) = key # waitForAvailable_keys evs"
| "waitForAvailable_keys (_ # evs) = waitForAvailable_keys evs"

section \<open>Auxiliary facts\<close>

lemma buildDiagnosticCodeActions_loop_map:
  "buildDiagnosticCodeActions_loop doc ds acts = acts @ map (ignore_action doc) ds"
  by (induction ds arbitrary: acts) simp_all

lemma buildDiagnosticCodeActions_map:
  "buildDiagnosticCodeActions doc ds = map (ignore_action doc) ds"
  by (simp add: buildDiagnosticCodeActions_def buildDiagnosticCodeActions_loop_map)

lemma ignore_action_fun:
  "ignore_action doc =
     (\<lambda>d. \<lparr> title = ''Ignore '' @ code d @ '' for this line'',
            kind = QuickFix,
            action_diagnostics = Some [d],
            action_command =
              Some \<lparr> command_title = ''Ignore Laravel PHP_CodeSniffer'',
                     command_name = IgnoreLineCommand_COMMAND,
                     arguments = [ArgDocument doc, ArgString (code d),
                                  ArgNumber (line (range_start d))] \<rparr>,
            edit = None,
            document = None \<rparr>)"
  by (rule ext) (simp add: ignore_action_def)

lemma excluded_iff: "excluded ps path \<longleftrightarrow> (\<exists>p \<in> set ps. p path)"
  by (induction ps) auto

lemma prevented_iff:
  "prevented la config \<longleftrightarrow>
     (la = Change \<and> lintAction config = Save) \<or> (la = Save \<and> lintAction config = Change)"
  by (cases la) (simp_all add: prevented_def)

lemma logged_append: "logged (xs @ ys) = logged xs @ logged ys"
  by (induction xs rule: logged.induct) simp_all

lemma waitForAvailable_keys_append:
  "waitForAvailable_keys (xs @ ys) = waitForAvailable_keys xs @ waitForAvailable_keys ys"
  by (induction xs rule: waitForAvailable_keys.induct) simp_all

lemma update_request_outcome:
  "fst (update_request env doc la tok config s) = fst (update_request env doc la tok config s')"
  by (simp add: update_request_def Let_def split: sum.splits)

lemma update_chain_outcome:
  "fst (update_chain env doc la tok s) = fst (update_chain env doc la tok s')"
  by (simp add: update_chain_def Let_def update_request_outcome split: sum.splits)

lemma resolve_request_outcome:
  "fst (resolve_request env doc d tok tr) = fst (resolve_request env doc d tok tr')"
  by (simp add: resolve_request_def Let_def split: sum.splits)

lemma update_settles:
  assumes "createCancellationToken env doc None = Some tok"
  shows "update env doc la s =
           (case update_chain env doc la tok
                   (s\<lparr> calls := calls s @
                         [CreateCancellationToken (uri doc) None,
                          LinterStatusStart (uri doc),
                          OnCancellationRequested tok (uri doc)] \<rparr>) of
              (Inr resp, s') \<Rightarrow> (Inr (), update_response doc resp s')
            | (Inl e, s') \<Rightarrow> update_catch doc e s')"
  using assms by (simp add: update_def emit_def Let_def)

lemma resolve_settles:
  assumes "document codeAction = Some doc"
    and "action_diagnostics codeAction = Some [d]"
    and "createCancellationToken env doc parent = Some tok"
  shows "resolve env codeAction parent tr =
           (case resolve_request env doc d tok
                   (tr @ [CreateCancellationToken (uri doc) parent]) of
              (Inr resp, tr') \<Rightarrow> resolve_response codeAction doc resp tr'
            | (Inl e, tr') \<Rightarrow> resolve_catch codeAction e tr')"
  using assms by (simp add: resolve_def Let_def)

lemma update_success:
  assumes "createCancellationToken env doc None = Some tok"
    and "configuration_get env doc (Some tok) = Inr config"
    and "\<not> excluded (exclude config) (fsPath (uri doc))"
    and "\<not> prevented la config"
    and "waitForAvailable env (''diagnostic:'' @ fileName doc) tok = Inr w"
    and "execute env w (diagnostic_request env doc config) tok = Inr resp"
  shows "update env doc la s =
           (Inr (),
            update_response doc resp
              (s\<lparr> calls := calls s @
                    [CreateCancellationToken (uri doc) None,
                     LinterStatusStart (uri doc),
                     OnCancellationRequested tok (uri doc),
                     ConfigurationGet (uri doc) (Some tok),
                     WaitForAvailable (''diagnostic:'' @ fileName doc) tok,
                     WorkerExecute w (diagnostic_request env doc config) tok] \<rparr>))"
  using assms
  by (simp add: update_def update_chain_def update_request_def emit_def Let_def)

lemma update_response_collections:
  "diagnosticCollection (update_response doc resp s) (uri doc) =
     (case report resp of None \<Rightarrow> None | Some r \<Rightarrow> Some (diagnostics r))"
  "codeActionCollection (update_response doc resp s) (uri doc) =
     (case report resp of None \<Rightarrow> None
      | Some r \<Rightarrow> Some (codeActions r @ map (ignore_action doc) (diagnostics r)))"
  by (simp_all add: update_response_def emit_def clearDocument_def Let_def
        buildDiagnosticCodeActions_map split: option.splits)

lemma resolve_success:
  assumes "document codeAction = Some doc"
    and "action_diagnostics codeAction = Some [d]"
    and "createCancellationToken env doc parent = Some tok"
    and "configuration_get env doc (Some tok) = Inr cfg"
    and "waitForAvailable env (workerKey doc d) tok = Inr w"
    and "configuration_get env doc None = Inr config"
    and "execute env w (code_action_request env doc d config) tok = Inr resp"
  shows "fst (resolve env codeAction parent tr) =
           Inr (case report resp of
                  None \<Rightarrow> codeAction
                | Some r \<Rightarrow> codeAction\<lparr> edit := Some [(uri doc, edits r)] \<rparr>)"
  using assms
  by (simp add: resolve_def resolve_request_def resolve_response_def Let_def
        split: option.splits)

lemma update_chain_calls:
  "count_list (calls (snd (update_chain env doc la tok s))) (DeleteCancellationToken u)
     = count_list (calls s) (DeleteCancellationToken u)"
  "logged (calls (snd (update_chain env doc la tok s))) = logged (calls s)"
  by (simp_all add: update_chain_def update_request_def emit_def clearDocument_def Let_def
        logged_append split: sum.splits)

lemma update_catch_deletes:
  "count_list (calls (snd (update_catch doc e s))) (DeleteCancellationToken u)
     = count_list (calls s) (DeleteCancellationToken u)"
  by (simp add: update_catch_def emit_def Let_def)

lemma update_response_deletes:
  "count_list (calls (update_response doc resp s)) (DeleteCancellationToken (uri doc))
     = count_list (calls s) (DeleteCancellationToken (uri doc)) + 1"
  by (simp add: update_response_def emit_def clearDocument_def Let_def split: option.splits)

lemma resolve_request_calls:
  "count_list (snd (resolve_request env doc d tok tr)) (DeleteCancellationToken u)
     = count_list tr (DeleteCancellationToken u)"
  "logged (snd (resolve_request env doc d tok tr)) = logged tr"
  by (simp_all add: resolve_request_def Let_def logged_append split: sum.splits)

lemma update_chain_unknown_collections:
  assumes "update_chain env doc la tok s = (Inl e, s')"
    and "\<not> instanceof_UpdatePreventedError e"
  shows "diagnosticCollection s' = diagnosticCollection s
         \<and> codeActionCollection s' = codeActionCollection s"
  using assms
  by (auto simp: update_chain_def update_request_def emit_def Let_def
        split: sum.splits if_splits)

lemma update_excluded:
  assumes "createCancellationToken env doc None = Some tok"
    and "configuration_get env doc (Some tok) = Inr config"
    and "\<exists>p \<in> set (exclude config). p (fsPath (uri doc))"
  shows "update env doc la s =
           (Inr (),
            \<lparr> diagnosticCollection = (diagnosticCollection s)(uri doc := None),
              codeActionCollection = (codeActionCollection s)(uri doc := None),
              calls = calls s @
                [CreateCancellationToken (uri doc) None,
                 LinterStatusStart (uri doc),
                 OnCancellationRequested tok (uri doc),
                 ConfigurationGet (uri doc) (Some tok),
                 LinterStatusStop (uri doc)] \<rparr>)"
proof -
  have "excluded (exclude config) (fsPath (uri doc))"
    using assms(3) by (simp add: excluded_iff)
  then show ?thesis
    using assms(1,2)
    by (simp add: update_def update_chain_def update_request_def update_catch_def
          clearDocument_def emit_def Let_def)
qed

lemma update_switch:
  assumes "createCancellationToken env doc None = Some tok"
    and "configuration_get env doc (Some tok) = Inr config"
    and "\<forall>p \<in> set (exclude config). \<not> p (fsPath (uri doc))"
  shows "((la = Change \<and> lintAction config = Save) \<or> (la = Save \<and> lintAction config = Change)
            \<longrightarrow> update env doc la s =
                  (Inr (),
                   s\<lparr> calls := calls s @
                        [CreateCancellationToken (uri doc) None,
                         LinterStatusStart (uri doc),
                         OnCancellationRequested tok (uri doc),
                         ConfigurationGet (uri doc) (Some tok),
                         LinterStatusStop (uri doc)] \<rparr>))
         \<and>
         (\<not> ((la = Change \<and> lintAction config = Save) \<or> (la = Save \<and> lintAction config = Change))
            \<longrightarrow> (\<exists>rest. calls (snd (update env doc la s)) =
                  calls s @
                    [CreateCancellationToken (uri doc) None,
                     LinterStatusStart (uri doc),
                     OnCancellationRequested tok (uri doc),
                     ConfigurationGet (uri doc) (Some tok),
                     WaitForAvailable (''diagnostic:'' @ fileName doc) tok] @ rest))"
proof -
  have ne: "\<not> excluded (exclude config) (fsPath (uri doc))"
    using assms(3) by (auto simp: excluded_iff)
  show ?thesis
  proof (rule conjI; rule impI)
    assume "(la = Change \<and> lintAction config = Save) \<or> (la = Save \<and> lintAction config = Change)"
    then have "prevented la config"
      by (simp add: prevented_iff)
    then show "update env doc la s =
                  (Inr (),
                   s\<lparr> calls := calls s @
                        [CreateCancellationToken (uri doc) None,
                         LinterStatusStart (uri doc),
                         OnCancellationRequested tok (uri doc),
                         ConfigurationGet (uri doc) (Some tok),
                         LinterStatusStop (uri doc)] \<rparr>)"
      using assms(1,2) ne
      by (simp add: update_def update_chain_def update_request_def update_catch_def
            emit_def Let_def)
  next
    assume "\<not> ((la = Change \<and> lintAction config = Save) \<or> (la = Save \<and> lintAction config = Change))"
    then have np: "\<not> prevented la config"
      by (simp add: prevented_iff)
    show "\<exists>rest. calls (snd (update env doc la s)) =
                  calls s @
                    [CreateCancellationToken (uri doc) None,
                     LinterStatusStart (uri doc),
                     OnCancellationRequested tok (uri doc),
                     ConfigurationGet (uri doc) (Some tok),
                     WaitForAvailable (''diagnostic:'' @ fileName doc) tok] @ rest"
    proof (cases "waitForAvailable env (''diagnostic:'' @ fileName doc) tok")
      case (Inl e)
      then have "calls (snd (update env doc la s)) =
                  calls s @
                    [CreateCancellationToken (uri doc) None,
                     LinterStatusStart (uri doc),
                     OnCancellationRequested tok (uri doc),
                     ConfigurationGet (uri doc) (Some tok),
                     WaitForAvailable (''diagnostic:'' @ fileName doc) tok]
                  @ calls (snd (update_catch doc e (s\<lparr> calls := [] \<rparr>)))"
        using assms(1,2) ne np
        by (simp add: update_def update_chain_def update_request_def update_catch_def
              emit_def Let_def)
      then show ?thesis by blast
    next
      case (Inr w)
      show ?thesis
      proof (cases "execute env w (diagnostic_request env doc config) tok")
        case (Inl e)
        then have "calls (snd (update env doc la s)) =
                  calls s @
                    [CreateCancellationToken (uri doc) None,
                     LinterStatusStart (uri doc),
                     OnCancellationRequested tok (uri doc),
                     ConfigurationGet (uri doc) (Some tok),
                     WaitForAvailable (''diagnostic:'' @ fileName doc) tok]
                  @ (WorkerExecute w (diagnostic_request env doc config) tok
                     # calls (snd (update_catch doc e (s\<lparr> calls := [] \<rparr>))))"
          using assms(1,2) ne np Inr
          by (simp add: update_def update_chain_def update_request_def update_catch_def
                emit_def Let_def)
        then show ?thesis by blast
      next
        case (Inr resp)
        then have "calls (snd (update env doc la s)) =
                  calls s @
                    [CreateCancellationToken (uri doc) None,
                     LinterStatusStart (uri doc),
                     OnCancellationRequested tok (uri doc),
                     ConfigurationGet (uri doc) (Some tok),
                     WaitForAvailable (''diagnostic:'' @ fileName doc) tok]
                  @ [WorkerExecute w (diagnostic_request env doc config) tok,
                     DeleteCancellationToken (uri doc), LinterStatusStop (uri doc)]"
          using assms(1,2) ne np \<open>waitForAvailable env (''diagnostic:'' @ fileName doc) tok = Inr w\<close>
          by (simp add: update_def update_chain_def update_request_def update_response_def
                clearDocument_def emit_def Let_def split: option.splits)
        then show ?thesis by blast
      qed
    qed
  qed
qed

lemma workerKey_eq:
  "workerKey doc d =
     ''resolve:'' @ fileName doc @ '':'' @ code d @ '':'' @
       number_toString (line (range_start d)) @ '':'' @
       number_toString (character (range_start d))"
  by (simp add: workerKey_def)

lemma update_chain_keys:
  "waitForAvailable_keys (calls (snd (update_chain env doc la tok s))) =
     waitForAvailable_keys (calls s) @
       (case configuration_get env doc (Some tok) of
          Inl _ \<Rightarrow> []
        | Inr config \<Rightarrow>
            if excluded (exclude config) (fsPath (uri doc)) \<or> prevented la config then []
            else [''diagnostic:'' @ fileName doc])"
  by (simp add: update_chain_def update_request_def emit_def clearDocument_def Let_def
        waitForAvailable_keys_append split: sum.splits)

lemma update_keys:
  "waitForAvailable_keys (calls (snd (update env doc la s))) =
     waitForAvailable_keys (calls s) @
       (case createCancellationToken env doc None of
          None \<Rightarrow> []
        | Some tok \<Rightarrow>
            (case configuration_get env doc (Some tok) of
               Inl _ \<Rightarrow> []
             | Inr config \<Rightarrow>
                 if excluded (exclude config) (fsPath (uri doc)) \<or> prevented la config then []
                 else [''diagnostic:'' @ fileName doc]))"
proof (cases "createCancellationToken env doc None")
  case None
  then show ?thesis
    by (simp add: update_def emit_def Let_def waitForAvailable_keys_append)
next
  case (Some tok)
  define s2 where "s2 = s\<lparr> calls := calls s @
                         [CreateCancellationToken (uri doc) None,
                          LinterStatusStart (uri doc),
                          OnCancellationRequested tok (uri doc)] \<rparr>"
  obtain r s3 where ch: "update_chain env doc la tok s2 = (r, s3)"
    by (cases "update_chain env doc la tok s2")
  have k3: "waitForAvailable_keys (calls s3) =
     waitForAvailable_keys (calls s) @
       (case configuration_get env doc (Some tok) of
          Inl _ \<Rightarrow> []
        | Inr config \<Rightarrow>
            if excluded (exclude config) (fsPath (uri doc)) \<or> prevented la config then []
            else [''diagnostic:'' @ fileName doc])"
    using update_chain_keys [of env doc la tok s2] ch
    by (simp add: s2_def waitForAvailable_keys_append)
  have "waitForAvailable_keys (calls (snd (update env doc la s)))
          = waitForAvailable_keys (calls s3)"
    using update_settles [OF Some, of la s] ch
    by (cases r)
       (simp_all add: s2_def update_catch_def update_response_def clearDocument_def
          emit_def Let_def waitForAvailable_keys_append split: option.splits)
  then show ?thesis
    using k3 Some by simp
qed

lemma resolve_keys:
  assumes "document codeAction = Some doc"
    and "action_diagnostics codeAction = Some [d]"
  shows "waitForAvailable_keys (snd (resolve env codeAction parent tr)) =
     waitForAvailable_keys tr @
       (case createCancellationToken env doc parent of
          None \<Rightarrow> []
        | Some tok \<Rightarrow>
            (case configuration_get env doc (Some tok) of
               Inl _ \<Rightarrow> []
             | Inr _ \<Rightarrow> [workerKey doc d]))"
  using assms
  by (simp add: resolve_def resolve_request_def resolve_response_def resolve_catch_def
        Let_def waitForAvailable_keys_append split: option.splits sum.splits)

lemma number_toString_examples:
  "number_toString 12 = ''12''" "number_toString 4 = ''4''"
  by (simp_all add: number_toString.simps digit_def)

section \<open>Properties\<close>

text \<open>
  C1. When the worker request of a diagnostic update succeeds (a token was obtained, the
  configuration arrived, the path is not excluded, the trigger is allowed, a worker was
  granted and \<open>execute\<close> fulfilled with a response): without a report, the document
  has no entry left in the diagnostic collection nor in the code action collection; with
  a report, its diagnostics are the report's diagnostics and its code actions are the
  report's code actions followed by one action per diagnostic, in the diagnostics'
  order: a quick fix titled \<open>Ignore <code> for this line\<close>, attached to that one
  diagnostic, whose command is the ignore-line command with the document, the
  diagnostic's code and its start line as arguments, and with neither edit nor document
  set. When the worker
  request of a resolution succeeds, the promise is fulfilled with the code action whose
  edit holds the report's edits for the document if a report is present, and with the
  code action as it was given if there is none.
\<close>

theorem report_handling:
  "(createCancellationToken env doc None = Some tok \<and>
    configuration_get env doc (Some tok) = Inr config \<and>
    (\<forall>p \<in> set (exclude config). \<not> p (fsPath (uri doc))) \<and>
    \<not> (la = Change \<and> lintAction config = Save) \<and>
    \<not> (la = Save \<and> lintAction config = Change) \<and>
    waitForAvailable env (''diagnostic:'' @ fileName doc) tok = Inr w \<and>
    execute env w (diagnostic_request env doc config) tok = Inr resp \<longrightarrow>
    (case report resp of
       None \<Rightarrow>
         diagnosticCollection (snd (update env doc la s)) (uri doc) = None \<and>
         codeActionCollection (snd (update env doc la s)) (uri doc) = None
     | Some r \<Rightarrow>
         diagnosticCollection (snd (update env doc la s)) (uri doc) = Some (diagnostics r) \<and>
         codeActionCollection (snd (update env doc la s)) (uri doc) =
           Some (codeActions r @
                 map (\<lambda>d. \<lparr> title = ''Ignore '' @ code d @ '' for this line'',
                           kind = QuickFix,
                           action_diagnostics = Some [d],
                           action_command =
                             Some \<lparr> command_title = ''Ignore Laravel PHP_CodeSniffer'',
                                    command_name = IgnoreLineCommand_COMMAND,
                                    arguments = [ArgDocument doc, ArgString (code d),
                                                 ArgNumber (line (range_start d))] \<rparr>,
                           edit = None,
                           document = None \<rparr>)
                   (diagnostics r))))
   \<and>
   (document codeAction = Some doc' \<and>
    action_diagnostics codeAction = Some [d] \<and>
    createCancellationToken env' doc' parent = Some tok' \<and>
    configuration_get env' doc' (Some tok') = Inr cfg \<and>
    waitForAvailable env' (workerKey doc' d) tok' = Inr w' \<and>
    configuration_get env' doc' None = Inr config' \<and>
    execute env' w' (code_action_request env' doc' d config') tok' = Inr resp' \<longrightarrow>
    fst (resolve env' codeAction parent tr) =
      Inr (case report resp' of
             None \<Rightarrow> codeAction
           | Some r \<Rightarrow> codeAction\<lparr> edit := Some [(uri doc', edits r)] \<rparr>))"
proof (intro conjI impI)
  assume a: "createCancellationToken env doc None = Some tok \<and>
    configuration_get env doc (Some tok) = Inr config \<and>
    (\<forall>p \<in> set (exclude config). \<not> p (fsPath (uri doc))) \<and>
    \<not> (la = Change \<and> lintAction config = Save) \<and>
    \<not> (la = Save \<and> lintAction config = Change) \<and>
    waitForAvailable env (''diagnostic:'' @ fileName doc) tok = Inr w \<and>
    execute env w (diagnostic_request env doc config) tok = Inr resp"
  then have ne: "\<not> excluded (exclude config) (fsPath (uri doc))"
    by (auto simp: excluded_iff)
  from a have np: "\<not> prevented la config"
    by (simp add: prevented_iff)
  from a ne np have "snd (update env doc la s) =
      update_response doc resp
        (s\<lparr> calls := calls s @
              [CreateCancellationToken (uri doc) None,
               LinterStatusStart (uri doc),
               OnCancellationRequested tok (uri doc),
               ConfigurationGet (uri doc) (Some tok),
               WaitForAvailable (''diagnostic:'' @ fileName doc) tok,
               WorkerExecute w (diagnostic_request env doc config) tok] \<rparr>)"
    by (simp add: update_success)
  then show "case report resp of
       None \<Rightarrow>
         diagnosticCollection (snd (update env doc la s)) (uri doc) = None \<and>
         codeActionCollection (snd (update env doc la s)) (uri doc) = None
     | Some r \<Rightarrow>
         diagnosticCollection (snd (update env doc la s)) (uri doc) = Some (diagnostics r) \<and>
         codeActionCollection (snd (update env doc la s)) (uri doc) =
           Some (codeActions r @
                 map (\<lambda>d. \<lparr> title = ''Ignore '' @ code d @ '' for this line'',
                           kind = QuickFix,
                           action_diagnostics = Some [d],
                           action_command =
                             Some \<lparr> command_title = ''Ignore Laravel PHP_CodeSniffer'',
                                    command_name = IgnoreLineCommand_COMMAND,
                                    arguments = [ArgDocument doc, ArgString (code d),
                                                 ArgNumber (line (range_start d))] \<rparr>,
                           edit = None,
                           document = None \<rparr>)
                   (diagnostics r))"
    by (simp add: update_response_collections ignore_action_fun split: option.splits)
next
  assume "document codeAction = Some doc' \<and>
    action_diagnostics codeAction = Some [d] \<and>
    createCancellationToken env' doc' parent = Some tok' \<and>
    configuration_get env' doc' (Some tok') = Inr cfg \<and>
    waitForAvailable env' (workerKey doc' d) tok' = Inr w' \<and>
    configuration_get env' doc' None = Inr config' \<and>
    execute env' w' (code_action_request env' doc' d config') tok' = Inr resp'"
  then show "fst (resolve env' codeAction parent tr) =
      Inr (case report resp' of
             None \<Rightarrow> codeAction
           | Some r \<Rightarrow> codeAction\<lparr> edit := Some [(uri doc', edits r)] \<rparr>)"
    by (simp add: resolve_success)
qed

theorem report_handling_witness:
  "diagnosticCollection (snd (update env_update0 doc0 Change updater0)) (uri doc0)
     = Some [diag0] \<and>
   codeActionCollection (snd (update env_update0 doc0 Change updater0)) (uri doc0)
     = Some [action0,
             \<lparr> title = ''Ignore Generic.Files.LineLength for this line'',
               kind = QuickFix,
               action_diagnostics = Some [diag0],
               action_command =
                 Some \<lparr> command_title = ''Ignore Laravel PHP_CodeSniffer'',
                        command_name = IgnoreLineCommand_COMMAND,
                        arguments = [ArgDocument doc0, ArgString ''Generic.Files.LineLength'',
                                     ArgNumber 12] \<rparr>,
               edit = None,
               document = None \<rparr>] \<and>
   fst (resolve env_resolve0 action0 None []) =
     Inr (action0\<lparr> edit := Some [(Uri ''/w/a.php'',
            [TextEdit \<lparr> line = 12, character = 4 \<rparr> \<lparr> line = 12, character = 9 \<rparr> ''x''])] \<rparr>)"
  using report_handling [where env = env_update0 and doc = doc0 and la = Change
      and tok = "CancellationToken 1" and config = config0 and w = "Worker 0"
      and resp = "\<lparr> report = Some \<lparr> diagnostics = [diag0], codeActions = [action0] \<rparr> \<rparr>"
      and s = updater0
      and env' = env_resolve0 and codeAction = action0 and doc' = doc0 and d = diag0
      and parent = None and tr = "[]"
      and tok' = "CancellationToken 2" and cfg = config0 and config' = config0
      and w' = "Worker 0"
      and resp' = "\<lparr> report = Some \<lparr> edits = [TextEdit \<lparr> line = 12, character = 4 \<rparr>
                                                  \<lparr> line = 12, character = 9 \<rparr> ''x''] \<rparr> \<rparr>"]
  by (simp add: env_update0_def env_resolve0_def constant_collaborators_def config0_def
        doc0_def action0_def diag0_def)

text \<open>
  C2, as the code has it. Once a token has been obtained, \<open>deleteCancellationToken\<close>
  is called for the document exactly once when the chain up to \<open>worker.execute\<close> is
  fulfilled, by the continuation that receives the response, and not at all when that
  chain rejects: the catch handlers of both dispatchers never call it, whatever the
  error (cancellation, configuration, PHPCS, prevented update or any other). Whether the
  chain is fulfilled depends on the collaborators only, not on the calls recorded before.
\<close>

theorem delete_token_calls:
  "(createCancellationToken env doc None = Some tok \<longrightarrow>
      count_list (calls (snd (update env doc la s))) (DeleteCancellationToken (uri doc)) =
        count_list (calls s) (DeleteCancellationToken (uri doc)) +
        (case fst (update_chain env doc la tok s) of Inr _ \<Rightarrow> 1 | Inl _ \<Rightarrow> 0))
   \<and>
   (document codeAction = Some doc' \<and>
    action_diagnostics codeAction = Some [d] \<and>
    createCancellationToken env' doc' parent = Some tok' \<longrightarrow>
      count_list (snd (resolve env' codeAction parent tr)) (DeleteCancellationToken (uri doc')) =
        count_list tr (DeleteCancellationToken (uri doc')) +
        (case fst (resolve_request env' doc' d tok' tr) of Inr _ \<Rightarrow> 1 | Inl _ \<Rightarrow> 0))"
proof (intro conjI impI)
  assume tk: "createCancellationToken env doc None = Some tok"
  define s2 where "s2 = s\<lparr> calls := calls s @
                         [CreateCancellationToken (uri doc) None,
                          LinterStatusStart (uri doc),
                          OnCancellationRequested tok (uri doc)] \<rparr>"
  obtain r s3 where ch: "update_chain env doc la tok s2 = (r, s3)"
    by (cases "update_chain env doc la tok s2")
  have out: "fst (update_chain env doc la tok s) = r"
    using update_chain_outcome [of env doc la tok s s2] ch by simp
  have "count_list (calls s3) (DeleteCancellationToken (uri doc))
          = count_list (calls s2) (DeleteCancellationToken (uri doc))"
    using update_chain_calls(1) [of env doc la tok s2 "uri doc"] ch by simp
  then have c3: "count_list (calls s3) (DeleteCancellationToken (uri doc))
          = count_list (calls s) (DeleteCancellationToken (uri doc))"
    by (simp add: s2_def)
  have upd: "update env doc la s =
      (case r of Inr resp \<Rightarrow> (Inr (), update_response doc resp s3)
       | Inl e \<Rightarrow> update_catch doc e s3)"
    using update_settles [OF tk, of la s] ch by (simp add: s2_def split: sum.splits)
  show "count_list (calls (snd (update env doc la s))) (DeleteCancellationToken (uri doc)) =
        count_list (calls s) (DeleteCancellationToken (uri doc)) +
        (case fst (update_chain env doc la tok s) of Inr _ \<Rightarrow> 1 | Inl _ \<Rightarrow> 0)"
  proof (cases r)
    case (Inl e)
    then show ?thesis
      using upd out c3 by (simp add: update_catch_deletes)
  next
    case (Inr resp)
    then show ?thesis
      using upd out c3 by (simp add: update_response_deletes)
  qed
next
  assume a: "document codeAction = Some doc' \<and>
    action_diagnostics codeAction = Some [d] \<and>
    createCancellationToken env' doc' parent = Some tok'"
  define tr0 where "tr0 = tr @ [CreateCancellationToken (uri doc') parent]"
  obtain r tr1 where ch: "resolve_request env' doc' d tok' tr0 = (r, tr1)"
    by (cases "resolve_request env' doc' d tok' tr0")
  have out: "fst (resolve_request env' doc' d tok' tr) = r"
    using resolve_request_outcome [of env' doc' d tok' tr tr0] ch by simp
  have "count_list tr1 (DeleteCancellationToken (uri doc'))
          = count_list tr0 (DeleteCancellationToken (uri doc'))"
    using resolve_request_calls(1) [of env' doc' d tok' tr0 "uri doc'"] ch by simp
  then have c1: "count_list tr1 (DeleteCancellationToken (uri doc'))
          = count_list tr (DeleteCancellationToken (uri doc'))"
    by (simp add: tr0_def)
  have res: "resolve env' codeAction parent tr =
      (case r of Inr resp \<Rightarrow> resolve_response codeAction doc' resp tr1
       | Inl e \<Rightarrow> resolve_catch codeAction e tr1)"
    using a resolve_settles [of codeAction doc' d env' parent tok' tr] ch
    by (simp add: tr0_def split: sum.splits)
  show "count_list (snd (resolve env' codeAction parent tr)) (DeleteCancellationToken (uri doc')) =
        count_list tr (DeleteCancellationToken (uri doc')) +
        (case fst (resolve_request env' doc' d tok' tr) of Inr _ \<Rightarrow> 1 | Inl _ \<Rightarrow> 0)"
  proof (cases r)
    case (Inl e)
    then show ?thesis
      using res out c1 by (simp add: resolve_catch_def)
  next
    case (Inr resp)
    then show ?thesis
      using res out c1 by (simp add: resolve_response_def Let_def split: option.splits)
  qed
qed

theorem delete_token_calls_witness:
  "count_list (calls (snd (update env_update0 doc0 Change updater0)))
     (DeleteCancellationToken (uri doc0)) = 1 \<and>
   count_list (calls (snd (update env_update_fails0 doc0 Change updater0)))
     (DeleteCancellationToken (uri doc0)) = 0 \<and>
   count_list (snd (resolve env_resolve0 action0 None []))
     (DeleteCancellationToken (uri doc0)) = 1"
  using delete_token_calls [where env = env_update0 and doc = doc0 and la = Change
      and tok = "CancellationToken 1" and s = updater0
      and env' = env_resolve0 and codeAction = action0 and doc' = doc0 and d = diag0
      and parent = None and tr = "[]" and tok' = "CancellationToken 2"]
    delete_token_calls [where env = env_update_fails0 and doc = doc0 and la = Change
      and tok = "CancellationToken 1" and s = updater0
      and env' = env_resolve0 and codeAction = action0 and doc' = doc0 and d = diag0
      and parent = None and tr = "[]" and tok' = "CancellationToken 2"]
  by (simp add: env_update0_def env_update_fails0_def env_resolve0_def
        constant_collaborators_def config0_def action0_def updater0_def doc0_def
        update_chain_def update_request_def resolve_request_def prevented_def Let_def)

text \<open>
  A run where the token is obtained and \<open>worker.execute\<close> rejects with a PHPCS error:
  the update recovers, and \<open>deleteCancellationToken\<close> has not been called.
\<close>

theorem delete_token_every_path_counterexample:
  "createCancellationToken env_update_fails0 doc0 None = Some (CancellationToken 1) \<and>
   fst (update env_update_fails0 doc0 Change updater0) = Inr () \<and>
   count_list (calls (snd (update env_update_fails0 doc0 Change updater0)))
     (DeleteCancellationToken (uri doc0)) = 0"
  by (simp add: env_update_fails0_def constant_collaborators_def config0_def updater0_def
        doc0_def update_def update_chain_def update_request_def update_catch_def prevented_def
        emit_def Let_def)

text \<open>
  C3. When the chain of a dispatcher rejects with a cancellation error, a configuration
  error or a PHPCS error, the dispatcher recovers: the chain of \<open>update\<close> is fulfilled
  and \<open>resolve\<close> is fulfilled with the code action it was given. The errors passed to
  \<open>logger.error\<close> during the call are none for a cancellation error, and exactly the
  error itself for the two others.
\<close>

theorem catch_handlers_recover:
  "(createCancellationToken env doc None = Some tok \<and>
    fst (update_chain env doc la tok s) = Inl e \<and>
    (instanceof_CancellationError e \<or> instanceof_ConfigurationError e
       \<or> instanceof_PHPCSError e) \<longrightarrow>
      fst (update env doc la s) = Inr () \<and>
      logged (calls (snd (update env doc la s))) =
        logged (calls s) @ (if instanceof_CancellationError e then [] else [e]))
   \<and>
   (document codeAction = Some doc' \<and>
    action_diagnostics codeAction = Some [d] \<and>
    createCancellationToken env' doc' parent = Some tok' \<and>
    fst (resolve_request env' doc' d tok' tr) = Inl e' \<and>
    (instanceof_CancellationError e' \<or> instanceof_ConfigurationError e'
       \<or> instanceof_PHPCSError e') \<longrightarrow>
      fst (resolve env' codeAction parent tr) = Inr codeAction \<and>
      logged (snd (resolve env' codeAction parent tr)) =
        logged tr @ (if instanceof_CancellationError e' then [] else [e']))"
proof (rule conjI; rule impI)
  assume a: "createCancellationToken env doc None = Some tok \<and>
    fst (update_chain env doc la tok s) = Inl e \<and>
    (instanceof_CancellationError e \<or> instanceof_ConfigurationError e
       \<or> instanceof_PHPCSError e)"
  define s2 where "s2 = s\<lparr> calls := calls s @
                         [CreateCancellationToken (uri doc) None,
                          LinterStatusStart (uri doc),
                          OnCancellationRequested tok (uri doc)] \<rparr>"
  obtain r s3 where ch: "update_chain env doc la tok s2 = (r, s3)"
    by (cases "update_chain env doc la tok s2")
  have "r = Inl e"
    using update_chain_outcome [of env doc la tok s s2] ch a by simp
  then have upd: "update env doc la s = update_catch doc e s3"
    using a update_settles [of env doc tok la s] ch by (simp add: s2_def)
  have l3: "logged (calls s3) = logged (calls s)"
    using update_chain_calls(2) [of env doc la tok s2] ch by (simp add: s2_def logged_append)
  show "fst (update env doc la s) = Inr () \<and>
      logged (calls (snd (update env doc la s))) =
        logged (calls s) @ (if instanceof_CancellationError e then [] else [e])"
    using a l3 by (cases e) (simp_all add: upd update_catch_def emit_def Let_def logged_append)
next
  assume a: "document codeAction = Some doc' \<and>
    action_diagnostics codeAction = Some [d] \<and>
    createCancellationToken env' doc' parent = Some tok' \<and>
    fst (resolve_request env' doc' d tok' tr) = Inl e' \<and>
    (instanceof_CancellationError e' \<or> instanceof_ConfigurationError e'
       \<or> instanceof_PHPCSError e')"
  define tr0 where "tr0 = tr @ [CreateCancellationToken (uri doc') parent]"
  obtain r tr1 where ch: "resolve_request env' doc' d tok' tr0 = (r, tr1)"
    by (cases "resolve_request env' doc' d tok' tr0")
  have "r = Inl e'"
    using resolve_request_outcome [of env' doc' d tok' tr tr0] ch a by simp
  then have res: "resolve env' codeAction parent tr = resolve_catch codeAction e' tr1"
    using a resolve_settles [of codeAction doc' d env' parent tok' tr] ch
    by (simp add: tr0_def)
  have l1: "logged tr1 = logged tr"
    using resolve_request_calls(2) [of env' doc' d tok' tr0] ch
    by (simp add: tr0_def logged_append)
  show "fst (resolve env' codeAction parent tr) = Inr codeAction \<and>
      logged (snd (resolve env' codeAction parent tr)) =
        logged tr @ (if instanceof_CancellationError e' then [] else [e'])"
    using a l1 by (cases e') (simp_all add: res resolve_catch_def logged_append)
qed

theorem catch_handlers_recover_witness:
  "fst (update env_update_cancelled0 doc0 Change updater0) = Inr () \<and>
   logged (calls (snd (update env_update_cancelled0 doc0 Change updater0))) = [] \<and>
   fst (update env_update_fails0 doc0 Change updater0) = Inr () \<and>
   logged (calls (snd (update env_update_fails0 doc0 Change updater0)))
     = [PHPCSError ''phpcs: fatal error''] \<and>
   fst (resolve env_resolve_fails0 action0 None []) = Inr action0 \<and>
   logged (snd (resolve env_resolve_fails0 action0 None []))
     = [ConfigurationError ''no executable'']"
  using catch_handlers_recover [where env = env_update_cancelled0 and doc = doc0
      and la = Change and tok = "CancellationToken 1" and s = updater0
      and e = CancellationError
      and env' = env_resolve_fails0 and codeAction = action0 and doc' = doc0 and d = diag0
      and parent = None and tr = "[]" and tok' = "CancellationToken 2"
      and e' = "ConfigurationError ''no executable''"]
    catch_handlers_recover [where env = env_update_fails0 and doc = doc0
      and la = Change and tok = "CancellationToken 1" and s = updater0
      and e = "PHPCSError ''phpcs: fatal error''"
      and env' = env_resolve_fails0 and codeAction = action0 and doc' = doc0 and d = diag0
      and parent = None and tr = "[]" and tok' = "CancellationToken 2"
      and e' = "ConfigurationError ''no executable''"]
  by (simp add: env_update_cancelled0_def env_update_fails0_def env_resolve_fails0_def
        constant_collaborators_def config0_def action0_def updater0_def doc0_def
        update_chain_def update_request_def resolve_request_def prevented_def Let_def)

text \<open>
  C4. When the token is obtained, the configuration arrives and one of its exclude
  patterns matches the document's path, the first continuation throws
  \<open>UpdatePreventedError\<close>, which the catch handler absorbs: \<open>update\<close> settles after
  exactly these calls: the token, the linter status start, the cancellation listener,
  the configuration, the linter status stop. So \<open>waitForAvailable\<close> is not called
  and nothing is logged.
\<close>

theorem excluded_document_aborts:
  assumes "createCancellationToken env doc None = Some tok"
    and "configuration_get env doc (Some tok) = Inr config"
    and "\<exists>p \<in> set (exclude config). p (fsPath (uri doc))"
  shows "fst (update_chain env doc la tok s) = Inl UpdatePreventedError \<and>
         fst (update env doc la s) = Inr () \<and>
         calls (snd (update env doc la s)) =
           calls s @
             [CreateCancellationToken (uri doc) None,
              LinterStatusStart (uri doc),
              OnCancellationRequested tok (uri doc),
              ConfigurationGet (uri doc) (Some tok),
              LinterStatusStop (uri doc)] \<and>
         waitForAvailable_keys (calls (snd (update env doc la s)))
           = waitForAvailable_keys (calls s) \<and>
         logged (calls (snd (update env doc la s))) = logged (calls s)"
proof -
  have "excluded (exclude config) (fsPath (uri doc))"
    using assms(3) by (simp add: excluded_iff)
  then have "fst (update_chain env doc la tok s) = Inl UpdatePreventedError"
    using assms(2) by (simp add: update_chain_def update_request_def Let_def)
  then show ?thesis
    by (simp add: update_excluded [OF assms] waitForAvailable_keys_append logged_append)
qed

theorem excluded_document_aborts_witness:
  "fst (update env_update_excluding0 doc0 Change updater0) = Inr () \<and>
   calls (snd (update env_update_excluding0 doc0 Change updater0)) =
     [CreateCancellationToken (Uri ''/w/a.php'') None,
      LinterStatusStart (Uri ''/w/a.php''),
      OnCancellationRequested (CancellationToken 1) (Uri ''/w/a.php''),
      ConfigurationGet (Uri ''/w/a.php'') (Some (CancellationToken 1)),
      LinterStatusStop (Uri ''/w/a.php'')]"
  using excluded_document_aborts [where env = env_update_excluding0 and doc = doc0
      and tok = "CancellationToken 1" and config = config_excluding0 and la = Change
      and s = updater0]
  by (simp add: env_update_excluding0_def config_excluding0_def config0_def
        constant_collaborators_def doc0_def updater0_def)

text \<open>
  C5, as the code has it. For an update that obtains its token and its configuration:
  when the trigger is \<open>Change\<close> and the configured action \<open>Save\<close>, or the trigger
  is \<open>Save\<close> and the configured action \<open>Change\<close>, the chain is fulfilled without
  \<open>waitForAvailable\<close> being called and without anything being logged, whatever the
  path; if moreover no exclude pattern matches the path, the only call after the
  configuration fetch is the linter status stop and the collections are untouched. In
  every other combination, the next call after the configuration fetch is
  \<open>waitForAvailable\<close> under the key of the document when no exclude pattern matches
  the path, and \<open>waitForAvailable\<close> is not called when one does: the exclusion loop
  runs before the switch.
\<close>

theorem trigger_mode:
  assumes "createCancellationToken env doc None = Some tok"
    and "configuration_get env doc (Some tok) = Inr config"
  shows "((la = Change \<and> lintAction config = Save) \<or> (la = Save \<and> lintAction config = Change) \<longrightarrow>
            fst (update env doc la s) = Inr () \<and>
            waitForAvailable_keys (calls (snd (update env doc la s)))
              = waitForAvailable_keys (calls s) \<and>
            logged (calls (snd (update env doc la s))) = logged (calls s))
         \<and>
         (((la = Change \<and> lintAction config = Save) \<or> (la = Save \<and> lintAction config = Change)) \<and> (\<forall>p \<in> set (exclude config). \<not> p (fsPath (uri doc)))
            \<longrightarrow> update env doc la s =
                  (Inr (),
                   s\<lparr> calls := calls s @
                        [CreateCancellationToken (uri doc) None,
                         LinterStatusStart (uri doc),
                         OnCancellationRequested tok (uri doc),
                         ConfigurationGet (uri doc) (Some tok),
                         LinterStatusStop (uri doc)] \<rparr>))
         \<and>
         (\<not> ((la = Change \<and> lintAction config = Save) \<or> (la = Save \<and> lintAction config = Change)) \<and> (\<forall>p \<in> set (exclude config). \<not> p (fsPath (uri doc)))
            \<longrightarrow> (\<exists>rest. calls (snd (update env doc la s)) =
                  calls s @
                    [CreateCancellationToken (uri doc) None,
                     LinterStatusStart (uri doc),
                     OnCancellationRequested tok (uri doc),
                     ConfigurationGet (uri doc) (Some tok),
                     WaitForAvailable (''diagnostic:'' @ fileName doc) tok] @ rest))
         \<and>
         (\<not> ((la = Change \<and> lintAction config = Save) \<or> (la = Save \<and> lintAction config = Change)) \<and> (\<exists>p \<in> set (exclude config). p (fsPath (uri doc)))
            \<longrightarrow> fst (update env doc la s) = Inr () \<and>
                waitForAvailable_keys (calls (snd (update env doc la s)))
                  = waitForAvailable_keys (calls s))"
proof (intro conjI)
  show "(la = Change \<and> lintAction config = Save) \<or> (la = Save \<and> lintAction config = Change) \<longrightarrow>
            fst (update env doc la s) = Inr () \<and>
            waitForAvailable_keys (calls (snd (update env doc la s)))
              = waitForAvailable_keys (calls s) \<and>
            logged (calls (snd (update env doc la s))) = logged (calls s)"
  proof
    assume m: "(la = Change \<and> lintAction config = Save) \<or> (la = Save \<and> lintAction config = Change)"
    show "fst (update env doc la s) = Inr () \<and>
            waitForAvailable_keys (calls (snd (update env doc la s)))
              = waitForAvailable_keys (calls s) \<and>
            logged (calls (snd (update env doc la s))) = logged (calls s)"
    proof (cases "\<exists>p \<in> set (exclude config). p (fsPath (uri doc))")
      case True
      show ?thesis
        by (simp add: update_excluded [OF assms True] waitForAvailable_keys_append
              logged_append)
    next
      case False
      then have ne: "\<forall>p \<in> set (exclude config). \<not> p (fsPath (uri doc))"
        by blast
      have "update env doc la s =
                  (Inr (),
                   s\<lparr> calls := calls s @
                        [CreateCancellationToken (uri doc) None,
                         LinterStatusStart (uri doc),
                         OnCancellationRequested tok (uri doc),
                         ConfigurationGet (uri doc) (Some tok),
                         LinterStatusStop (uri doc)] \<rparr>)"
        using update_switch [OF assms ne, of la s] m by blast
      then show ?thesis
        by (simp add: waitForAvailable_keys_append logged_append)
    qed
  qed
next
  show "((la = Change \<and> lintAction config = Save) \<or> (la = Save \<and> lintAction config = Change)) \<and> (\<forall>p \<in> set (exclude config). \<not> p (fsPath (uri doc)))
            \<longrightarrow> update env doc la s =
                  (Inr (),
                   s\<lparr> calls := calls s @
                        [CreateCancellationToken (uri doc) None,
                         LinterStatusStart (uri doc),
                         OnCancellationRequested tok (uri doc),
                         ConfigurationGet (uri doc) (Some tok),
                         LinterStatusStop (uri doc)] \<rparr>)"
  proof
    assume a: "((la = Change \<and> lintAction config = Save) \<or> (la = Save \<and> lintAction config = Change)) \<and> (\<forall>p \<in> set (exclude config). \<not> p (fsPath (uri doc)))"
    then have ne: "\<forall>p \<in> set (exclude config). \<not> p (fsPath (uri doc))"
      by blast
    show "update env doc la s =
                  (Inr (),
                   s\<lparr> calls := calls s @
                        [CreateCancellationToken (uri doc) None,
                         LinterStatusStart (uri doc),
                         OnCancellationRequested tok (uri doc),
                         ConfigurationGet (uri doc) (Some tok),
                         LinterStatusStop (uri doc)] \<rparr>)"
      using update_switch [OF assms ne, of la s] a by blast
  qed
next
  show "\<not> ((la = Change \<and> lintAction config = Save) \<or> (la = Save \<and> lintAction config = Change)) \<and> (\<forall>p \<in> set (exclude config). \<not> p (fsPath (uri doc)))
            \<longrightarrow> (\<exists>rest. calls (snd (update env doc la s)) =
                  calls s @
                    [CreateCancellationToken (uri doc) None,
                     LinterStatusStart (uri doc),
                     OnCancellationRequested tok (uri doc),
                     ConfigurationGet (uri doc) (Some tok),
                     WaitForAvailable (''diagnostic:'' @ fileName doc) tok] @ rest)"
  proof
    assume a: "\<not> ((la = Change \<and> lintAction config = Save) \<or> (la = Save \<and> lintAction config = Change)) \<and> (\<forall>p \<in> set (exclude config). \<not> p (fsPath (uri doc)))"
    then have ne: "\<forall>p \<in> set (exclude config). \<not> p (fsPath (uri doc))"
      by blast
    show "\<exists>rest. calls (snd (update env doc la s)) =
                  calls s @
                    [CreateCancellationToken (uri doc) None,
                     LinterStatusStart (uri doc),
                     OnCancellationRequested tok (uri doc),
                     ConfigurationGet (uri doc) (Some tok),
                     WaitForAvailable (''diagnostic:'' @ fileName doc) tok] @ rest"
      using update_switch [OF assms ne, of la s] a by blast
  qed
next
  show "\<not> ((la = Change \<and> lintAction config = Save) \<or> (la = Save \<and> lintAction config = Change)) \<and> (\<exists>p \<in> set (exclude config). p (fsPath (uri doc)))
            \<longrightarrow> fst (update env doc la s) = Inr () \<and>
                waitForAvailable_keys (calls (snd (update env doc la s)))
                  = waitForAvailable_keys (calls s)"
  proof
    assume "\<not> ((la = Change \<and> lintAction config = Save) \<or> (la = Save \<and> lintAction config = Change)) \<and> (\<exists>p \<in> set (exclude config). p (fsPath (uri doc)))"
    then have ex: "\<exists>p \<in> set (exclude config). p (fsPath (uri doc))"
      by blast
    show "fst (update env doc la s) = Inr () \<and>
                waitForAvailable_keys (calls (snd (update env doc la s)))
                  = waitForAvailable_keys (calls s)"
      by (simp add: update_excluded [OF assms ex] waitForAvailable_keys_append)
  qed
qed

theorem trigger_mode_witness:
  "update env_update_on_save0 doc0 Change updater0 =
     (Inr (),
      updater0\<lparr> calls :=
        [CreateCancellationToken (Uri ''/w/a.php'') None,
         LinterStatusStart (Uri ''/w/a.php''),
         OnCancellationRequested (CancellationToken 1) (Uri ''/w/a.php''),
         ConfigurationGet (Uri ''/w/a.php'') (Some (CancellationToken 1)),
         LinterStatusStop (Uri ''/w/a.php'')] \<rparr>) \<and>
   (\<exists>rest. calls (snd (update env_update_on_save0 doc0 Save updater0)) =
     [CreateCancellationToken (Uri ''/w/a.php'') None,
      LinterStatusStart (Uri ''/w/a.php''),
      OnCancellationRequested (CancellationToken 1) (Uri ''/w/a.php''),
      ConfigurationGet (Uri ''/w/a.php'') (Some (CancellationToken 1)),
      WaitForAvailable ''diagnostic:/w/a.php'' (CancellationToken 1)] @ rest) \<and>
   waitForAvailable_keys (calls (snd (update env_update_excluding0 doc0 Change updater0)))
     = []"
  using trigger_mode [where env = env_update_on_save0 and doc = doc0
      and tok = "CancellationToken 1" and config = "config0\<lparr> lintAction := Save \<rparr>"
      and la = Change and s = updater0]
    trigger_mode [where env = env_update_on_save0 and doc = doc0
      and tok = "CancellationToken 1" and config = "config0\<lparr> lintAction := Save \<rparr>"
      and la = Save and s = updater0]
    trigger_mode [where env = env_update_excluding0 and doc = doc0
      and tok = "CancellationToken 1" and config = config_excluding0
      and la = Change and s = updater0]
  by (simp add: env_update_on_save0_def env_update_excluding0_def config_excluding0_def
        config0_def constant_collaborators_def doc0_def updater0_def)

text \<open>
  A run with trigger \<open>Change\<close> and configured action \<open>Change\<close>, a combination that
  the switch lets through, on a path that the second exclude pattern matches: the token
  and the configuration are obtained, and \<open>waitForAvailable\<close> is never called.
\<close>

theorem trigger_mode_every_call_counterexample:
  "createCancellationToken env_update_excluding0 doc0 None = Some (CancellationToken 1) \<and>
   configuration_get env_update_excluding0 doc0 (Some (CancellationToken 1))
     = Inr config_excluding0 \<and>
   lintAction config_excluding0 = Change \<and>
   waitForAvailable_keys (calls (snd (update env_update_excluding0 doc0 Change updater0)))
     = [] \<and>
   calls (snd (update env_update_excluding0 doc0 Change updater0)) =
     [CreateCancellationToken (Uri ''/w/a.php'') None,
      LinterStatusStart (Uri ''/w/a.php''),
      OnCancellationRequested (CancellationToken 1) (Uri ''/w/a.php''),
      ConfigurationGet (Uri ''/w/a.php'') (Some (CancellationToken 1)),
      LinterStatusStop (Uri ''/w/a.php'')]"
  by (simp add: env_update_excluding0_def constant_collaborators_def updater0_def doc0_def
        update_def update_chain_def update_request_def update_catch_def clearDocument_def
        emit_def Let_def)
     (simp add: config_excluding0_def config0_def)

text \<open>
  C6. A diagnostic update calls \<open>waitForAvailable\<close> at most once, under the key
  \<open>diagnostic:\<close> followed by the document's file name, and does so once the
  configuration has arrived for a path that is not excluded and a trigger that is
  allowed. A resolution of a valid code action calls it at most once, under the key made
  of \<open>resolve\<close>, the file name, the diagnostic's code, its start line and its start
  character, joined by colons, and does so once the token and the configuration are
  there. The key is a function of these four values alone, so two resolutions of the
  same diagnostic of the same document use the same key.
\<close>

theorem serialization_keys:
  "(waitForAvailable_keys (calls (snd (update env doc la s))) = waitForAvailable_keys (calls s)
    \<or> waitForAvailable_keys (calls (snd (update env doc la s)))
        = waitForAvailable_keys (calls s) @ [''diagnostic:'' @ fileName doc])
   \<and>
   (createCancellationToken env doc None = Some tok \<and>
    configuration_get env doc (Some tok) = Inr cfg \<and>
    (\<forall>p \<in> set (exclude cfg). \<not> p (fsPath (uri doc))) \<and>
    \<not> (la = Change \<and> lintAction cfg = Save) \<and>
    \<not> (la = Save \<and> lintAction cfg = Change) \<longrightarrow>
      waitForAvailable_keys (calls (snd (update env doc la s)))
        = waitForAvailable_keys (calls s) @ [''diagnostic:'' @ fileName doc])
   \<and>
   (document codeAction = Some doc' \<and> action_diagnostics codeAction = Some [d] \<longrightarrow>
      waitForAvailable_keys (snd (resolve env' codeAction parent tr)) = waitForAvailable_keys tr
      \<or> waitForAvailable_keys (snd (resolve env' codeAction parent tr))
          = waitForAvailable_keys tr @
              [''resolve:'' @ fileName doc' @ '':'' @ code d @ '':'' @
               number_toString (line (range_start d)) @ '':'' @
               number_toString (character (range_start d))])
   \<and>
   (document codeAction = Some doc' \<and> action_diagnostics codeAction = Some [d] \<and>
    createCancellationToken env' doc' parent = Some tok' \<and>
    configuration_get env' doc' (Some tok') = Inr config \<longrightarrow>
      waitForAvailable_keys (snd (resolve env' codeAction parent tr))
        = waitForAvailable_keys tr @
            [''resolve:'' @ fileName doc' @ '':'' @ code d @ '':'' @
             number_toString (line (range_start d)) @ '':'' @
             number_toString (character (range_start d))])"
proof (intro conjI impI)
  show "waitForAvailable_keys (calls (snd (update env doc la s))) = waitForAvailable_keys (calls s)
    \<or> waitForAvailable_keys (calls (snd (update env doc la s)))
        = waitForAvailable_keys (calls s) @ [''diagnostic:'' @ fileName doc]"
    by (simp add: update_keys split: option.splits sum.splits)
next
  assume a: "createCancellationToken env doc None = Some tok \<and>
    configuration_get env doc (Some tok) = Inr cfg \<and>
    (\<forall>p \<in> set (exclude cfg). \<not> p (fsPath (uri doc))) \<and>
    \<not> (la = Change \<and> lintAction cfg = Save) \<and>
    \<not> (la = Save \<and> lintAction cfg = Change)"
  then have "\<not> excluded (exclude cfg) (fsPath (uri doc))"
    by (auto simp: excluded_iff)
  moreover from a have "\<not> prevented la cfg"
    by (simp add: prevented_iff)
  ultimately show "waitForAvailable_keys (calls (snd (update env doc la s)))
        = waitForAvailable_keys (calls s) @ [''diagnostic:'' @ fileName doc]"
    using a by (simp add: update_keys)
next
  assume "document codeAction = Some doc' \<and> action_diagnostics codeAction = Some [d]"
  then show "waitForAvailable_keys (snd (resolve env' codeAction parent tr)) = waitForAvailable_keys tr
      \<or> waitForAvailable_keys (snd (resolve env' codeAction parent tr))
          = waitForAvailable_keys tr @
              [''resolve:'' @ fileName doc' @ '':'' @ code d @ '':'' @
               number_toString (line (range_start d)) @ '':'' @
               number_toString (character (range_start d))]"
    by (simp add: resolve_keys workerKey_eq split: option.splits sum.splits)
next
  assume "document codeAction = Some doc' \<and> action_diagnostics codeAction = Some [d] \<and>
    createCancellationToken env' doc' parent = Some tok' \<and>
    configuration_get env' doc' (Some tok') = Inr config"
  then show "waitForAvailable_keys (snd (resolve env' codeAction parent tr))
        = waitForAvailable_keys tr @
            [''resolve:'' @ fileName doc' @ '':'' @ code d @ '':'' @
             number_toString (line (range_start d)) @ '':'' @
             number_toString (character (range_start d))]"
    by (simp add: resolve_keys workerKey_eq)
qed

theorem serialization_keys_witness:
  "waitForAvailable_keys (calls (snd (update env_update0 doc0 Change updater0)))
     = [''diagnostic:/w/a.php''] \<and>
   waitForAvailable_keys (snd (resolve env_resolve0 action0 None []))
     = [''resolve:/w/a.php:Generic.Files.LineLength:12:4'']"
  using serialization_keys [where env = env_update0 and doc = doc0 and la = Change
      and s = updater0 and env' = env_resolve0 and codeAction = action0 and doc' = doc0
      and d = diag0 and parent = None and tr = "[]" and tok' = "CancellationToken 2"
      and config = config0 and tok = "CancellationToken 1" and cfg = config0]
  by (simp add: env_update0_def env_resolve0_def constant_collaborators_def config0_def
        action0_def updater0_def doc0_def diag0_def prevented_def number_toString_examples)

text \<open>
  C7. When \<open>createCancellationToken\<close> returns no token, \<open>update\<close> returns with
  that call as its only call (no linter status start, no configuration fetch, no worker
  request) and the collections untouched, and \<open>resolve\<close> of a valid code action is
  fulfilled with the code action it was given, with that call as its only call.
\<close>

theorem no_token_fails_fast:
  "(createCancellationToken env doc None = None \<longrightarrow>
      update env doc la s =
        (Inr (), s\<lparr> calls := calls s @ [CreateCancellationToken (uri doc) None] \<rparr>))
   \<and>
   (document codeAction = Some doc' \<and> action_diagnostics codeAction = Some [d] \<and>
    createCancellationToken env' doc' parent = None \<longrightarrow>
      resolve env' codeAction parent tr =
        (Inr codeAction, tr @ [CreateCancellationToken (uri doc') parent]))"
  by (simp add: update_def resolve_def emit_def Let_def)

theorem no_token_fails_fast_witness:
  "update (constant_collaborators None (Inr config0) (Inr (Worker 0))
             (Inr \<lparr> report = None \<rparr>)) doc0 Change updater0 =
     (Inr (), updater0\<lparr> calls := [CreateCancellationToken (Uri ''/w/a.php'') None] \<rparr>) \<and>
   resolve (constant_collaborators None (Inr config0) (Inr (Worker 0))
              (Inr \<lparr> report = None \<rparr>)) action0 None [] =
     (Inr action0, [CreateCancellationToken (Uri ''/w/a.php'') None])"
  using no_token_fails_fast [where
      env = "constant_collaborators None (Inr config0) (Inr (Worker 0)) (Inr \<lparr> report = None \<rparr>)"
      and doc = doc0 and la = Change and s = updater0
      and env' = "constant_collaborators None (Inr config0) (Inr (Worker 0))
                    (Inr \<lparr> report = None \<rparr>)"
      and codeAction = action0 and doc' = doc0 and d = diag0 and parent = None and tr = "[]"]
  by (simp add: constant_collaborators_def action0_def updater0_def doc0_def)

text \<open>
  C8. When the chain of a dispatcher rejects with an error that is none of cancellation,
  configuration, PHPCS (nor, for \<open>update\<close>, prevented update), the dispatcher's
  promise rejects with that same error. For \<open>update\<close> both collections are then as
  they were before the call, so the failure is not turned into an absence of findings;
  nothing is logged by either dispatcher.
\<close>

theorem unknown_errors_rethrown:
  "(createCancellationToken env doc None = Some tok \<and>
    fst (update_chain env doc la tok s) = Inl e \<and>
    \<not> instanceof_CancellationError e \<and> \<not> instanceof_ConfigurationError e \<and>
    \<not> instanceof_PHPCSError e \<and> \<not> instanceof_UpdatePreventedError e \<longrightarrow>
      fst (update env doc la s) = Inl e \<and>
      diagnosticCollection (snd (update env doc la s)) = diagnosticCollection s \<and>
      codeActionCollection (snd (update env doc la s)) = codeActionCollection s \<and>
      logged (calls (snd (update env doc la s))) = logged (calls s))
   \<and>
   (document codeAction = Some doc' \<and>
    action_diagnostics codeAction = Some [d] \<and>
    createCancellationToken env' doc' parent = Some tok' \<and>
    fst (resolve_request env' doc' d tok' tr) = Inl e' \<and>
    \<not> instanceof_CancellationError e' \<and> \<not> instanceof_ConfigurationError e' \<and>
    \<not> instanceof_PHPCSError e' \<longrightarrow>
      fst (resolve env' codeAction parent tr) = Inl e' \<and>
      logged (snd (resolve env' codeAction parent tr)) = logged tr)"
proof (rule conjI; rule impI)
  assume a: "createCancellationToken env doc None = Some tok \<and>
    fst (update_chain env doc la tok s) = Inl e \<and>
    \<not> instanceof_CancellationError e \<and> \<not> instanceof_ConfigurationError e \<and>
    \<not> instanceof_PHPCSError e \<and> \<not> instanceof_UpdatePreventedError e"
  define s2 where "s2 = s\<lparr> calls := calls s @
                         [CreateCancellationToken (uri doc) None,
                          LinterStatusStart (uri doc),
                          OnCancellationRequested tok (uri doc)] \<rparr>"
  obtain r s3 where ch: "update_chain env doc la tok s2 = (r, s3)"
    by (cases "update_chain env doc la tok s2")
  have r: "r = Inl e"
    using update_chain_outcome [of env doc la tok s s2] ch a by simp
  then have upd: "update env doc la s = update_catch doc e s3"
    using a update_settles [of env doc tok la s] ch by (simp add: s2_def)
  have l3: "logged (calls s3) = logged (calls s)"
    using update_chain_calls(2) [of env doc la tok s2] ch by (simp add: s2_def logged_append)
  have c3: "diagnosticCollection s3 = diagnosticCollection s
            \<and> codeActionCollection s3 = codeActionCollection s"
    using update_chain_unknown_collections [of env doc la tok s2 e s3] ch r a
    by (simp add: s2_def)
  show "fst (update env doc la s) = Inl e \<and>
      diagnosticCollection (snd (update env doc la s)) = diagnosticCollection s \<and>
      codeActionCollection (snd (update env doc la s)) = codeActionCollection s \<and>
      logged (calls (snd (update env doc la s))) = logged (calls s)"
    using a l3 c3 by (simp add: upd update_catch_def emit_def Let_def logged_append)
next
  assume a: "document codeAction = Some doc' \<and>
    action_diagnostics codeAction = Some [d] \<and>
    createCancellationToken env' doc' parent = Some tok' \<and>
    fst (resolve_request env' doc' d tok' tr) = Inl e' \<and>
    \<not> instanceof_CancellationError e' \<and> \<not> instanceof_ConfigurationError e' \<and>
    \<not> instanceof_PHPCSError e'"
  define tr0 where "tr0 = tr @ [CreateCancellationToken (uri doc') parent]"
  obtain r tr1 where ch: "resolve_request env' doc' d tok' tr0 = (r, tr1)"
    by (cases "resolve_request env' doc' d tok' tr0")
  have "r = Inl e'"
    using resolve_request_outcome [of env' doc' d tok' tr tr0] ch a by simp
  then have res: "resolve env' codeAction parent tr = resolve_catch codeAction e' tr1"
    using a resolve_settles [of codeAction doc' d env' parent tok' tr] ch
    by (simp add: tr0_def)
  have l1: "logged tr1 = logged tr"
    using resolve_request_calls(2) [of env' doc' d tok' tr0] ch
    by (simp add: tr0_def logged_append)
  show "fst (resolve env' codeAction parent tr) = Inl e' \<and>
      logged (snd (resolve env' codeAction parent tr)) = logged tr"
    using a l1 by (simp add: res resolve_catch_def)
qed

theorem unknown_errors_rethrown_witness:
  "fst (update env_update_unknown0 doc0 Change updater0) = Inl (OtherError ''TypeError'') \<and>
   diagnosticCollection (snd (update env_update_unknown0 doc0 Change updater0))
     = diagnosticCollection updater0 \<and>
   fst (resolve env_resolve_unknown0 action0 None []) = Inl (OtherError ''TypeError'')"
  using unknown_errors_rethrown [where env = env_update_unknown0 and doc = doc0
      and la = Change and tok = "CancellationToken 1" and s = updater0
      and e = "OtherError ''TypeError''"
      and env' = env_resolve_unknown0 and codeAction = action0 and doc' = doc0 and d = diag0
      and parent = None and tr = "[]" and tok' = "CancellationToken 2"
      and e' = "OtherError ''TypeError''"]
  by (simp add: env_update_unknown0_def env_resolve_unknown0_def
        constant_collaborators_def config0_def action0_def updater0_def doc0_def
        update_chain_def update_request_def resolve_request_def prevented_def Let_def)

text \<open>
  C9. A code action whose document is unset, whose diagnostics are unset, or whose
  diagnostics list does not hold exactly one diagnostic is returned by \<open>resolve\<close> as it
  is: the promise is fulfilled with the same code action, and no call is made on any
  collaborator (no cancellation token, no configuration, no worker pool).
\<close>

theorem resolve_invalid_code_action:
  assumes "document codeAction = None \<or> action_diagnostics codeAction = None
           \<or> (\<exists>ds. action_diagnostics codeAction = Some ds \<and> length ds \<noteq> 1)"
  shows "resolve env codeAction parent tr = (Inr codeAction, tr)"
  using assms by (auto simp: resolve_def split: option.splits)

theorem resolve_invalid_code_action_witness:
  "resolve (constant_collaborators (Some (CancellationToken 0)) (Inr config0)
              (Inr (Worker 0)) (Inr \<lparr> report = None \<rparr>))
           (action0\<lparr> action_diagnostics := Some [diag0, diag0] \<rparr>) None []
   = (Inr (action0\<lparr> action_diagnostics := Some [diag0, diag0] \<rparr>), [])"
  by (rule resolve_invalid_code_action) (simp add: action0_def)

text \<open>
  C10. When the token is obtained, the configuration arrives and one of its exclude
  patterns matches the document's path, \<open>update\<close> leaves both collections without
  an entry for the document, every other entry being as before.
\<close>

theorem excluded_document_cleared:
  assumes "createCancellationToken env doc None = Some tok"
    and "configuration_get env doc (Some tok) = Inr config"
    and "\<exists>p \<in> set (exclude config). p (fsPath (uri doc))"
  shows "diagnosticCollection (snd (update env doc la s))
           = (diagnosticCollection s)(uri doc := None) \<and>
         codeActionCollection (snd (update env doc la s))
           = (codeActionCollection s)(uri doc := None)"
  by (simp add: update_excluded [OF assms])

theorem excluded_document_cleared_witness:
  "diagnosticCollection updater0 (uri doc0) = Some [diag0] \<and>
   codeActionCollection updater0 (uri doc0) = Some [action0] \<and>
   diagnosticCollection (snd (update env_update_excluding0 doc0 Change updater0)) (uri doc0)
     = None \<and>
   codeActionCollection (snd (update env_update_excluding0 doc0 Change updater0)) (uri doc0)
     = None"
  using excluded_document_cleared [where env = env_update_excluding0 and doc = doc0
      and tok = "CancellationToken 1" and config = config_excluding0 and la = Change
      and s = updater0]
  by (simp add: env_update_excluding0_def config_excluding0_def config0_def
        constant_collaborators_def doc0_def updater0_def)

end
